theory Spec2Isabelle
  imports Main "HOL-Library.Word" "HOL-Library.Sublist"
begin

section \<open>Strings, bytes and base64\<close>

text \<open>
  A byte is a word of 8 bits and a string of JavaScript a list of UTF-16 code units.
  \<open>js\<close> gives the string of a text of ASCII characters.
\<close>

type_synonym byte = "8 word"
type_synonym jsstring = "16 word list"

definition js :: "string \<Rightarrow> jsstring" where
  "js s = map (\<lambda>c. of_nat (of_char c)) s"

text \<open>
  \<^verbatim>\<open>btoa\<close> and \<^verbatim>\<open>atob\<close> are functions of the browser: the base64 coding of a
  string of code units below 256 (\<^verbatim>\<open>btoa\<close> throws on any other string), and the
  forgiving base64 decoding, which removes ASCII whitespace, accepts a text with or
  without padding, and drops the bits of the last character that fill no byte.
\<close>

definition b64_code :: "nat \<Rightarrow> nat" where
  "b64_code n =
    (if n < 26 then 65 + n
     else if n < 52 then 71 + n
     else if n < 62 then n - 4
     else if n = 62 then 43 else 47)"

definition b64_sextet :: "nat \<Rightarrow> nat option" where
  "b64_sextet c =
    (if 65 \<le> c \<and> c \<le> 90 then Some (c - 65)
     else if 97 \<le> c \<and> c \<le> 122 then Some (c - 71)
     else if 48 \<le> c \<and> c \<le> 57 then Some (c + 4)
     else if c = 43 then Some 62
     else if c = 47 then Some 63
     else None)"

definition b64_unit :: "nat \<Rightarrow> 16 word" where
  "b64_unit n = of_nat (b64_code n)"

definition b64_index :: "16 word \<Rightarrow> nat option" where
  "b64_index u = b64_sextet (unat u)"

definition pad :: "16 word" where "pad = 61"

fun enc_sextets :: "nat list \<Rightarrow> nat list" where
  "enc_sextets (a # b # c # rest) =
     [a div 4, (a mod 4) * 16 + b div 16, (b mod 16) * 4 + c div 64, c mod 64] @ enc_sextets rest"
| "enc_sextets [a, b] = [a div 4, (a mod 4) * 16 + b div 16, (b mod 16) * 4]"
| "enc_sextets [a] = [a div 4, (a mod 4) * 16]"
| "enc_sextets [] = []"

definition b64_encode :: "nat list \<Rightarrow> jsstring" where
  "b64_encode bs = map b64_unit (enc_sextets bs) @ replicate ((3 - length bs mod 3) mod 3) pad"

fun dec_sextets :: "nat list \<Rightarrow> nat list" where
  "dec_sextets (s1 # s2 # s3 # s4 # rest) =
     [s1 * 4 + s2 div 16, (s2 mod 16) * 16 + s3 div 4, (s3 mod 4) * 64 + s4] @ dec_sextets rest"
| "dec_sextets [s1, s2, s3] = [s1 * 4 + s2 div 16, (s2 mod 16) * 16 + s3 div 4]"
| "dec_sextets [s1, s2] = [s1 * 4 + s2 div 16]"
| "dec_sextets _ = []"

definition is_ascii_whitespace :: "16 word \<Rightarrow> bool" where
  "is_ascii_whitespace u = (u = 9 \<or> u = 10 \<or> u = 12 \<or> u = 13 \<or> u = 32)"

definition strip_padding :: "jsstring \<Rightarrow> jsstring" where
  "strip_padding d =
    (if d \<noteq> [] \<and> last d = pad then
       (if butlast d \<noteq> [] \<and> last (butlast d) = pad then butlast (butlast d) else butlast d)
     else d)"

definition atob :: "jsstring \<Rightarrow> jsstring option" where
  "atob s =
    (let d0 = filter (\<lambda>u. \<not> is_ascii_whitespace u) s;
         d = (if length d0 mod 4 = 0 then strip_padding d0 else d0)
     in if length d mod 4 = 1 then None
        else (case those (map b64_index d) of
                None \<Rightarrow> None
              | Some sx \<Rightarrow> Some (map of_nat (dec_sextets sx))))"

definition btoa :: "jsstring \<Rightarrow> jsstring option" where
  "btoa s = (if list_all (\<lambda>u. u \<le> 0xFF) s then Some (b64_encode (map unat s)) else None)"

section \<open>Service worker: request classification and caching strategies\<close>

text \<open>
  The service worker of version 2.0.0 intercepts every fetch event. A request is given
  with the parts of it the handler reads: its URL (a string), its method, the protocol
  and origin of \<^verbatim>\<open>new URL(request.url)\<close> and its destination. A response is the
  status line, the headers and the body.
\<close>

record request =
  url :: string
  req_method :: string
  protocol :: string
  origin :: string
  destination :: string

record response =
  status :: nat
  statusText :: string
  headers :: "(string \<times> string) list"
  body :: string
  resp_type :: string

definition ok :: "response \<Rightarrow> bool" where
  "ok r = (200 \<le> status r \<and> status r \<le> 299)"

text \<open>\<^verbatim>\<open>String.prototype.includes\<close>: the pattern occurs somewhere in the string.\<close>

definition str_includes :: "string \<Rightarrow> string \<Rightarrow> bool" where
  "str_includes s pat = sublist pat s"

definition STATIC_CACHE :: string where
  "STATIC_CACHE = ''claude-static-v2.0.0''"

definition DYNAMIC_CACHE :: string where
  "DYNAMIC_CACHE = ''claude-dynamic-v2.0.0''"

definition STATIC_ASSETS :: "string list" where
  "STATIC_ASSETS =
    [''/'', ''/index.html'', ''/manifest.json'', ''/css/main.css'', ''/css/animations.css'',
     ''/css/auth.css'', ''/css/responsive.css'', ''/js/config.js'', ''/js/utils.js'',
     ''/js/storage.js'', ''/js/auth/google-auth.js'', ''/js/auth/manual-auth.js'',
     ''/js/auth/auth-manager.js'', ''/js/data-collector.js'', ''/js/charts.js'',
     ''/js/theme.js'', ''/js/dashboard.js'', ''/js/app.js'',
     ''https://fonts.googleapis.com/css2?family=Inter:wght@300;400;500;600;700&family=JetBrains+Mono:wght@400;500&display=swap'',
     ''https://fonts.googleapis.com/icon?family=Material+Icons'',
     ''https://cdn.jsdelivr.net/npm/chart.js'']"

definition DYNAMIC_PATTERNS :: "string list" where
  "DYNAMIC_PATTERNS =
    [''/assets/'', ''https://fonts.gstatic.com/'', ''https://lh3.googleusercontent.com/'']"

definition NETWORK_FIRST :: "string list" where
  "NETWORK_FIRST = [''https://accounts.google.com/'', ''https://apis.google.com/'', ''/api/'']"

definition isNetworkFirst :: "string \<Rightarrow> bool" where
  "isNetworkFirst u = list_ex (\<lambda>pattern. str_includes u pattern) NETWORK_FIRST"

definition isStaticAsset :: "string \<Rightarrow> bool" where
  "isStaticAsset u =
    (List.member STATIC_ASSETS u \<or> str_includes u ''/css/'' \<or> str_includes u ''/js/'' \<or>
     str_includes u ''/assets/'')"

definition isDynamicAsset :: "string \<Rightarrow> bool" where
  "isDynamicAsset u = list_ex (\<lambda>pattern. str_includes u pattern) DYNAMIC_PATTERNS"

text \<open>
  The cache storage is the list of the named caches in the order of their creation; a
  cache maps the URL of a request to the stored response. \<^verbatim>\<open>caches.open\<close> creates a
  cache that does not exist, \<^verbatim>\<open>caches.match\<close> asks every cache in order,
  \<^verbatim>\<open>cache.put\<close> replaces the entry of the request. The network is a function that
  gives the response of a request, or nothing when \<^verbatim>\<open>fetch\<close> rejects.
\<close>

type_synonym cache = "(string \<times> response) list"
type_synonym cache_storage = "(string \<times> cache) list"
type_synonym network = "request \<Rightarrow> response option"

definition caches_open :: "cache_storage \<Rightarrow> string \<Rightarrow> cache_storage" where
  "caches_open cs name = (case map_of cs name of Some c \<Rightarrow> cs | None \<Rightarrow> cs @ [(name, [])])"

definition cache_of :: "cache_storage \<Rightarrow> string \<Rightarrow> cache" where
  "cache_of cs name = (case map_of cs name of Some c \<Rightarrow> c | None \<Rightarrow> [])"

fun caches_match :: "cache_storage \<Rightarrow> string \<Rightarrow> response option" where
  "caches_match [] u = None"
| "caches_match ((name, c) # cs) u =
     (case map_of c u of Some r \<Rightarrow> Some r | None \<Rightarrow> caches_match cs u)"

fun cache_put :: "cache \<Rightarrow> string \<Rightarrow> response \<Rightarrow> cache" where
  "cache_put [] u r = [(u, r)]"
| "cache_put ((k, v) # c) u r = (if k = u then (u, r) # c else (k, v) # cache_put c u r)"

fun put_in :: "cache_storage \<Rightarrow> string \<Rightarrow> string \<Rightarrow> response \<Rightarrow> cache_storage" where
  "put_in [] name u r = [(name, [(u, r)])]"
| "put_in ((n, c) # cs) name u r =
     (if n = name then (n, cache_put c u r) # cs else (n, c) # put_in cs name u r)"

text \<open>The synthetic responses the strategies build themselves.\<close>

definition offline_response :: response where
  \<open>offline_response =
    \<lparr>status = 503, statusText = ''Service Unavailable'',
     headers = [(''Content-Type'', ''application/json'')],
     body = ''{"offline":true,"error":"Network unavailable","message":"This feature requires an internet connection"}'',
     resp_type = ''default''\<rparr>\<close>

definition text_response :: "string \<Rightarrow> nat \<Rightarrow> response" where
  "text_response b st =
    \<lparr>status = st, statusText = '''',
     headers = [(''content-type'', ''text/plain;charset=UTF-8'')],
     body = b, resp_type = ''default''\<rparr>"

text \<open>
  \<^verbatim>\<open>networkFirst\<close>: the network first; a successful response of a dynamic asset is
  put in the dynamic cache; when the fetch rejects, the cache, and when the cache has
  nothing, the offline response.
\<close>

definition networkFirst :: "network \<Rightarrow> cache_storage \<Rightarrow> request \<Rightarrow> response \<times> cache_storage" where
  "networkFirst net cs req =
    (case net req of
       Some networkResponse \<Rightarrow>
         (if ok networkResponse \<and> isDynamicAsset (url req)
          then (networkResponse, put_in cs DYNAMIC_CACHE (url req) networkResponse)
          else (networkResponse, cs))
     | None \<Rightarrow>
         (case caches_match cs (url req) of
            Some cacheResponse \<Rightarrow> (cacheResponse, cs)
          | None \<Rightarrow> (offline_response, cs)))"

definition cacheFirst :: "network \<Rightarrow> cache_storage \<Rightarrow> request \<Rightarrow> response \<times> cache_storage" where
  "cacheFirst net cs req =
    (case caches_match cs (url req) of
       Some cacheResponse \<Rightarrow> (cacheResponse, cs)
     | None \<Rightarrow>
         (case net req of
            Some networkResponse \<Rightarrow>
              (if ok networkResponse
               then (networkResponse, put_in cs STATIC_CACHE (url req) networkResponse)
               else (networkResponse, cs))
          | None \<Rightarrow> (text_response ''Asset not available offline'' 404, cs)))"

definition staleWhileRevalidate ::
  "network \<Rightarrow> cache_storage \<Rightarrow> request \<Rightarrow> response \<times> cache_storage" where
  "staleWhileRevalidate net cs req =
    (let cs1 = caches_open cs DYNAMIC_CACHE;
         cacheResponse = map_of (cache_of cs1 DYNAMIC_CACHE) (url req);
         fetched = net req;
         cs2 = (case fetched of
                  Some networkResponse \<Rightarrow>
                    (if ok networkResponse
                     then put_in cs1 DYNAMIC_CACHE (url req) networkResponse else cs1)
                | None \<Rightarrow> cs1)
     in (case cacheResponse of
           Some r \<Rightarrow> (r, cs2)
         | None \<Rightarrow>
             (case fetched of
                Some r \<Rightarrow> (r, cs2)
              | None \<Rightarrow> (text_response ''Content not available offline'' 404, cs2))))"

text \<open>
  What a fetch listener does with an event: it returns without \<^verbatim>\<open>respondWith\<close>, so
  that the browser handles the request as if there were no service worker; or it
  responds with a response; or the promise it gave to \<^verbatim>\<open>respondWith\<close> rejects or
  resolves to no response, which the page sees as a network error.
\<close>

datatype handled = PassThrough | RespondWith response | NetworkError

definition fetch_listener :: "network \<Rightarrow> cache_storage \<Rightarrow> request \<Rightarrow> handled \<times> cache_storage" where
  "fetch_listener net cs req =
    (if req_method req \<noteq> ''GET'' \<or> protocol req = ''chrome-extension:'' then (PassThrough, cs)
     else if isNetworkFirst (url req)
       then (let (r, cs') = networkFirst net cs req in (RespondWith r, cs'))
     else if isStaticAsset (url req)
       then (let (r, cs') = cacheFirst net cs req in (RespondWith r, cs'))
     else (let (r, cs') = staleWhileRevalidate net cs req in (RespondWith r, cs')))"

subsection \<open>The service worker of version 1.0.0\<close>

definition DYNAMIC_CACHE_v1 :: string where
  "DYNAMIC_CACHE_v1 = ''claude-monitor-dynamic-v1.0.0''"

definition fetch_listener_v1 ::
  "network \<Rightarrow> cache_storage \<Rightarrow> request \<Rightarrow> handled \<times> cache_storage" where
  "fetch_listener_v1 net cs req =
    (if req_method req \<noteq> ''GET'' then (PassThrough, cs)
     else if origin req = ''https://api.anthropic.com'' then
       (case net req of
          Some resp \<Rightarrow> (RespondWith resp, put_in cs DYNAMIC_CACHE_v1 (url req) resp)
        | None \<Rightarrow>
            (case caches_match cs (url req) of
               Some r \<Rightarrow> (RespondWith r, cs)
             | None \<Rightarrow> (NetworkError, cs)))
     else
       (case caches_match cs (url req) of
          Some cachedResponse \<Rightarrow> (RespondWith cachedResponse, cs)
        | None \<Rightarrow>
            (case net req of
               Some resp \<Rightarrow>
                 (if status resp \<noteq> 200 \<or> resp_type resp = ''opaque''
                  then (RespondWith resp, cs)
                  else (RespondWith resp, put_in cs DYNAMIC_CACHE_v1 (url req) resp))
             | None \<Rightarrow>
                 (if destination req = ''document''
                  then (case caches_match cs ''/index.html'' of
                          Some r \<Rightarrow> (RespondWith r, cs)
                        | None \<Rightarrow> (NetworkError, cs))
                  else (NetworkError, cs)))))"

section \<open>The platform: typed arrays, random values, JSON, text coding, Web Crypto\<close>

text \<open>
  \<^verbatim>\<open>Uint8Array.from(s, c => c.charCodeAt(0))\<close> stores every code unit modulo 256;
  \<^verbatim>\<open>a.slice(i, j)\<close> is the part from index \<open>i\<close> up to, not including, \<open>j\<close>.
\<close>

definition charCodes :: "jsstring \<Rightarrow> byte list" where
  "charCodes s = map ucast s"

definition slice :: "'a list \<Rightarrow> nat \<Rightarrow> nat \<Rightarrow> 'a list" where
  "slice xs i j = take (j - i) (drop i xs)"

text \<open>
  The random source of \<^verbatim>\<open>crypto.getRandomValues\<close> is an endless sequence of bytes;
  filling an array of \<open>n\<close> bytes takes the next \<open>n\<close> of them.
\<close>

type_synonym rng = "nat \<Rightarrow> byte"

definition getRandomValues :: "rng \<Rightarrow> nat \<Rightarrow> byte list \<times> rng" where
  "getRandomValues g n = (map g [0..<n], \<lambda>i. g (n + i))"

text \<open>
  The functions of the browser that the code calls and that are no code of the
  repository are the fields of a platform: \<^verbatim>\<open>JSON.stringify\<close> (nothing when it throws),
  \<^verbatim>\<open>JSON.parse\<close> (nothing when it throws), the UTF-8 coding of \<^verbatim>\<open>TextEncoder\<close> and
  \<^verbatim>\<open>TextDecoder\<close>, the PBKDF2 key derivation with SHA-256 (password bytes, salt,
  iterations), and AES-GCM with a tag of 128 bits (key, IV, data; nothing when the
  operation throws, as decryption does when the tag does not verify), and the number of
  arguments that the engine accepts in one call. The type \<open>'v\<close> is the type of the
  values that are serialised, \<open>'k\<close> the type of keys.
\<close>

record ('v, 'k) platform =
  JSON_stringify :: "'v \<Rightarrow> jsstring option"
  JSON_parse :: "jsstring \<Rightarrow> 'v option"
  TextEncoder_encode :: "jsstring \<Rightarrow> byte list"
  TextDecoder_decode :: "byte list \<Rightarrow> jsstring"
  PBKDF2_SHA256 :: "byte list \<Rightarrow> byte list \<Rightarrow> nat \<Rightarrow> 'k"
  AES_GCM_encrypt :: "'k \<Rightarrow> byte list \<Rightarrow> byte list \<Rightarrow> byte list option"
  AES_GCM_decrypt :: "'k \<Rightarrow> byte list \<Rightarrow> byte list \<Rightarrow> byte list option"
  max_arguments :: nat

text \<open>
  \<^verbatim>\<open>String.fromCharCode(...bytes)\<close> passes every byte of the array as an argument of
  its own. The engine accepts \<^verbatim>\<open>max_arguments\<close> arguments in a call and throws a
  \<^verbatim>\<open>RangeError\<close> when there are more (nothing here); otherwise the result is the string
  whose code units are the bytes.
\<close>

definition fromCharCode :: "('v, 'k) platform \<Rightarrow> byte list \<Rightarrow> jsstring option" where
  "fromCharCode P bs = (if length bs > max_arguments P then None else Some (map ucast bs))"

section \<open>CryptoUtils\<close>

definition saltLength :: nat where "saltLength = 16"
definition ivLength :: nat where "ivLength = 12"
definition iterations :: nat where "iterations = 100000"

datatype crypto_error = Failed_to_encrypt_data | Failed_to_decrypt_data

definition deriveKey :: "('v, 'k) platform \<Rightarrow> jsstring \<Rightarrow> byte list \<Rightarrow> 'k" where
  "deriveKey P password salt = PBKDF2_SHA256 P (TextEncoder_encode P password) salt iterations"

text \<open>
  \<^verbatim>\<open>encrypt\<close>: a fresh salt and a fresh IV, the key of the password and the salt, the
  JSON text of the data encrypted, and the base64 text of salt, IV and ciphertext in
  this order. Every exception, also the \<^verbatim>\<open>RangeError\<close> of
  \<^verbatim>\<open>String.fromCharCode(...combined)\<close>, ends in
  \<^verbatim>\<open>Error('Failed to encrypt data')\<close>.
\<close>

definition encrypt ::
  "('v, 'k) platform \<Rightarrow> rng \<Rightarrow> 'v \<Rightarrow> jsstring \<Rightarrow> crypto_error + jsstring" where
  "encrypt P g d password =
    (let (salt, g1) = getRandomValues g saltLength;
         (iv, g2) = getRandomValues g1 ivLength;
         k = deriveKey P password salt
     in case JSON_stringify P d of
          None \<Rightarrow> Inl Failed_to_encrypt_data
        | Some text \<Rightarrow>
            (case AES_GCM_encrypt P k iv (TextEncoder_encode P text) of
               None \<Rightarrow> Inl Failed_to_encrypt_data
             | Some encrypted \<Rightarrow>
                 (case fromCharCode P (salt @ iv @ encrypted) of
                    None \<Rightarrow> Inl Failed_to_encrypt_data
                  | Some bin \<Rightarrow>
                      (case btoa bin of
                         None \<Rightarrow> Inl Failed_to_encrypt_data
                       | Some b \<Rightarrow> Inr b))))"


text \<open>The salt and the IV that \<^verbatim>\<open>encrypt\<close> takes from the random source.\<close>

definition encryption_salt :: "rng \<Rightarrow> byte list" where
  "encryption_salt g = fst (getRandomValues g saltLength)"

definition encryption_iv :: "rng \<Rightarrow> byte list" where
  "encryption_iv g = fst (getRandomValues (snd (getRandomValues g saltLength)) ivLength)"

text \<open>
  What the properties ask of the platform. A value is JSON-serialisable when
  \<^verbatim>\<open>JSON.stringify\<close> gives a text for it and \<^verbatim>\<open>JSON.parse\<close> gives the value
  back from the text, also after the text was coded in UTF-8 and decoded. AES-GCM is
  correct when encryption succeeds and decryption under the same key and IV gives the
  data back.
\<close>

definition json_serialisable :: "('v, 'k) platform \<Rightarrow> 'v \<Rightarrow> bool" where
  "json_serialisable P v =
    (case JSON_stringify P v of
       None \<Rightarrow> False
     | Some text \<Rightarrow>
         JSON_parse P text = Some v \<and>
         JSON_parse P (TextDecoder_decode P (TextEncoder_encode P text)) = Some v)"

definition aes_gcm_correct :: "('v, 'k) platform \<Rightarrow> bool" where
  "aes_gcm_correct P =
    (\<forall>k iv m. case AES_GCM_encrypt P k iv m of
                 None \<Rightarrow> False
               | Some c \<Rightarrow> AES_GCM_decrypt P k iv c = Some m)"




section \<open>StorageManager: secure data, usage data and the cache\<close>

text \<open>
  The records of the object stores. A usage record is the data given, with its
  \<^verbatim>\<open>id\<close> and \<^verbatim>\<open>timestamp\<close> set; its other properties (source, model, tokens,
  cost, date) are copied as they are and are one field here.
\<close>

record secure_record =
  sr_key :: string
  sr_data :: jsstring
  sr_timestamp :: int

record 'v cache_record =
  cr_key :: string
  cr_data :: 'v
  cr_expires :: int
  cr_timestamp :: int

record 'u usage_record =
  usage_id :: "int option"
  usage_timestamp :: "int option"
  usage_fields :: 'u

text \<open>
  The database has an object store for each kind of record, keyed by \<^verbatim>\<open>key\<close> and,
  for the usage data, by \<^verbatim>\<open>id\<close>. \<^verbatim>\<open>localStorage\<close> holds strings: every string the
  code writes there is the JSON text of a record, of a list of usage records or of a
  value, and every string it reads is parsed as JSON; an item is held here as the
  document its text stands for.
\<close>

record ('v, 'u) idb =
  secureData :: "string \<rightharpoonup> secure_record"
  usageData :: "int \<rightharpoonup> 'u usage_record"
  cache :: "string \<rightharpoonup> 'v cache_record"

datatype ('v, 'u) ls_item =
    SecureItem secure_record
  | CacheItem "'v cache_record"
  | UsageItem "'u usage_record list"
  | ValueItem 'v

type_synonym ('v, 'u) local_storage = "string \<rightharpoonup> ('v, 'u) ls_item"

text \<open>
  The manager: the encryption key (none when Web Crypto is missing or the key could not
  be made), the database (none when IndexedDB could not be opened) and the
  \<^verbatim>\<open>localStorage\<close> of the window.
\<close>

record ('v, 'u, 'k) storage_manager =
  encryptionKey :: "'k option"
  db :: "('v, 'u) idb option"
  localStorage :: "('v, 'u) local_storage"

datatype js_error = TypeError | SyntaxError

text \<open>
  \<^verbatim>\<open>fallbackEncrypt\<close>: the base64 text of the JSON text, and the JSON text itself when
  \<^verbatim>\<open>btoa\<close> throws. When \<^verbatim>\<open>JSON.stringify\<close> throws, it throws again in the handler.
\<close>

definition fallbackEncrypt :: "('v, 'k) platform \<Rightarrow> 'v \<Rightarrow> js_error + jsstring" where
  "fallbackEncrypt P d =
    (case JSON_stringify P d of
       None \<Rightarrow> Inl TypeError
     | Some text \<Rightarrow> (case btoa text of Some b \<Rightarrow> Inr b | None \<Rightarrow> Inr text))"

text \<open>
  \<^verbatim>\<open>encryptData\<close>: without a key the fallback; with a key, AES-GCM under a fresh IV of
  12 bytes and the base64 text of IV and ciphertext; on any exception, also the
  \<^verbatim>\<open>RangeError\<close> of \<^verbatim>\<open>String.fromCharCode(...result)\<close>, the fallback.
\<close>

definition encryptData ::
  "('v, 'k) platform \<Rightarrow> ('v, 'u, 'k) storage_manager \<Rightarrow> rng \<Rightarrow> 'v \<Rightarrow> js_error + jsstring" where
  "encryptData P sm g d =
    (case encryptionKey sm of
       None \<Rightarrow> fallbackEncrypt P d
     | Some k \<Rightarrow>
         (case JSON_stringify P d of
            None \<Rightarrow> fallbackEncrypt P d
          | Some text \<Rightarrow>
              (let dataBytes = TextEncoder_encode P text;
                   (iv, g1) = getRandomValues g 12
               in case AES_GCM_encrypt P k iv dataBytes of
                    None \<Rightarrow> fallbackEncrypt P d
                  | Some encryptedData \<Rightarrow>
                      (case fromCharCode P (iv @ encryptedData) of
                         None \<Rightarrow> fallbackEncrypt P d
                       | Some bin \<Rightarrow>
                           (case btoa bin of
                              None \<Rightarrow> fallbackEncrypt P d
                            | Some b \<Rightarrow> Inr b)))))"

definition fallbackDecrypt :: "('v, 'k) platform \<Rightarrow> jsstring \<Rightarrow> js_error + 'v" where
  "fallbackDecrypt P encryptedData =
    (let second = (case JSON_parse P encryptedData of
                     Some v \<Rightarrow> Inr v | None \<Rightarrow> Inl SyntaxError)
     in case atob encryptedData of
          None \<Rightarrow> second
        | Some text \<Rightarrow> (case JSON_parse P text of Some v \<Rightarrow> Inr v | None \<Rightarrow> second))"

definition decryptData ::
  "('v, 'k) platform \<Rightarrow> ('v, 'u, 'k) storage_manager \<Rightarrow> jsstring \<Rightarrow> js_error + 'v" where
  "decryptData P sm encryptedData =
    (case encryptionKey sm of
       None \<Rightarrow> fallbackDecrypt P encryptedData
     | Some k \<Rightarrow>
         (case atob encryptedData of
            None \<Rightarrow> fallbackDecrypt P encryptedData
          | Some bin \<Rightarrow>
              (let dataBytes = charCodes bin;
                   iv = slice dataBytes 0 12;
                   encrypted = drop 12 dataBytes
               in case AES_GCM_decrypt P k iv encrypted of
                    None \<Rightarrow> fallbackDecrypt P encryptedData
                  | Some decryptedData \<Rightarrow>
                      (case JSON_parse P (TextDecoder_decode P decryptedData) of
                         None \<Rightarrow> fallbackDecrypt P encryptedData
                       | Some v \<Rightarrow> Inr v))))"

text \<open>
  \<^verbatim>\<open>setSecureData\<close>, \<^verbatim>\<open>getSecureData\<close>, \<^verbatim>\<open>removeSecureData\<close>. An exception of
  \<^verbatim>\<open>setSecureData\<close> is thrown on; \<^verbatim>\<open>getSecureData\<close> answers null on any exception.
  Under a key of \<^verbatim>\<open>localStorage\<close> with the prefix \<^verbatim>\<open>secure_\<close> only
  \<^verbatim>\<open>setSecureData\<close> writes; for an item of another kind the model answers null.
\<close>

definition setSecureData ::
  "('v, 'k) platform \<Rightarrow> ('v, 'u, 'k) storage_manager \<Rightarrow> rng \<Rightarrow> int \<Rightarrow> string \<Rightarrow> 'v \<Rightarrow>
     js_error + ('v, 'u, 'k) storage_manager" where
  "setSecureData P sm g now k d =
    (case encryptData P sm g d of
       Inl e \<Rightarrow> Inl e
     | Inr encryptedData \<Rightarrow>
         (let record = \<lparr>sr_key = k, sr_data = encryptedData, sr_timestamp = now\<rparr>
          in case db sm of
               Some store \<Rightarrow>
                 Inr (sm\<lparr>db := Some (store\<lparr>secureData := (secureData store)(k \<mapsto> record)\<rparr>)\<rparr>)
             | None \<Rightarrow>
                 Inr (sm\<lparr>localStorage :=
                        (localStorage sm)(''secure_'' @ k \<mapsto> SecureItem record)\<rparr>)))"

definition secure_record_of ::
  "('v, 'u, 'k) storage_manager \<Rightarrow> string \<Rightarrow> secure_record option" where
  "secure_record_of sm k =
    (case db sm of
       Some store \<Rightarrow> secureData store k
     | None \<Rightarrow>
         (case localStorage sm (''secure_'' @ k) of
            Some (SecureItem r) \<Rightarrow> Some r
          | _ \<Rightarrow> None))"

definition getSecureData ::
  "('v, 'k) platform \<Rightarrow> ('v, 'u, 'k) storage_manager \<Rightarrow> string \<Rightarrow> 'v option" where
  "getSecureData P sm k =
    (case secure_record_of sm k of
       None \<Rightarrow> None
     | Some record \<Rightarrow>
         (case decryptData P sm (sr_data record) of
            Inr decryptedData \<Rightarrow> Some decryptedData
          | Inl e \<Rightarrow> None))"

definition removeSecureData ::
  "('v, 'u, 'k) storage_manager \<Rightarrow> string \<Rightarrow> ('v, 'u, 'k) storage_manager" where
  "removeSecureData sm k =
    (case db sm of
       Some store \<Rightarrow> sm\<lparr>db := Some (store\<lparr>secureData := (secureData store)(k := None)\<rparr>)\<rparr>
     | None \<Rightarrow> sm\<lparr>localStorage := (localStorage sm)(''secure_'' @ k := None)\<rparr>)"

text \<open>
  \<^verbatim>\<open>storeUsageData\<close>: the record is the data with \<^verbatim>\<open>id: data.id || Date.now()\<close> and
  \<^verbatim>\<open>timestamp: Date.now()\<close>. With the database, \<^verbatim>\<open>store.put(record)\<close> under the key
  \<^verbatim>\<open>id\<close>. Without it, the record is pushed on the list under \<^verbatim>\<open>usage_data\<close> and
  the list is cut to its last 1000 records; a document there that is no list makes
  \<^verbatim>\<open>push\<close> throw.
\<close>

definition record_id :: "'u usage_record \<Rightarrow> int \<Rightarrow> int" where
  "record_id d now = (case usage_id d of Some i \<Rightarrow> if i \<noteq> 0 then i else now | None \<Rightarrow> now)"

definition usage_record_of :: "'u usage_record \<Rightarrow> int \<Rightarrow> 'u usage_record" where
  "usage_record_of d now = d\<lparr>usage_id := Some (record_id d now), usage_timestamp := Some now\<rparr>"

definition splice_last_1000 :: "'a list \<Rightarrow> 'a list" where
  "splice_last_1000 existing =
    (if length existing > 1000 then drop (length existing - 1000) existing else existing)"

definition storeUsageData ::
  "('v, 'u, 'k) storage_manager \<Rightarrow> int \<Rightarrow> 'u usage_record \<Rightarrow>
     js_error + ('v, 'u, 'k) storage_manager" where
  "storeUsageData sm now d =
    (let record = usage_record_of d now
     in case db sm of
          Some store \<Rightarrow>
            Inr (sm\<lparr>db := Some (store\<lparr>usageData :=
                                     (usageData store)(record_id d now \<mapsto> record)\<rparr>)\<rparr>)
        | None \<Rightarrow>
            (case (case localStorage sm ''usage_data'' of
                     None \<Rightarrow> Some []
                   | Some (UsageItem xs) \<Rightarrow> Some xs
                   | Some _ \<Rightarrow> None) of
               None \<Rightarrow> Inl TypeError
             | Some existing \<Rightarrow>
                 Inr (sm\<lparr>localStorage :=
                        (localStorage sm)(''usage_data'' \<mapsto>
                          UsageItem (splice_last_1000 (existing @ [record])))\<rparr>)))"

text \<open>
  The usage records the manager holds: the records of the object store, or the list in
  \<^verbatim>\<open>localStorage\<close>.
\<close>

definition usage_list :: "('v, 'u, 'k) storage_manager \<Rightarrow> 'u usage_record list" where
  "usage_list sm =
    (case localStorage sm ''usage_data'' of Some (UsageItem xs) \<Rightarrow> xs | _ \<Rightarrow> [])"

text \<open>Whether the document under \<^verbatim>\<open>usage_data\<close> is a list, or is missing.\<close>

definition usage_data_is_list :: "('v, 'u, 'k) storage_manager \<Rightarrow> bool" where
  "usage_data_is_list sm =
    (case localStorage sm ''usage_data'' of
       None \<Rightarrow> True | Some (UsageItem xs) \<Rightarrow> True | Some _ \<Rightarrow> False)"

text \<open>
  \<^verbatim>\<open>setCacheData\<close> (the TTL is 3600000 ms when none is given), \<^verbatim>\<open>getCacheData\<close>
  and \<^verbatim>\<open>removeCacheData\<close>. Under a key of \<^verbatim>\<open>localStorage\<close> with the prefix
  \<^verbatim>\<open>cache_\<close> only \<^verbatim>\<open>setCacheData\<close> writes; for an item of another kind the model
  answers null.
\<close>

definition setCacheData ::
  "('v, 'u, 'k) storage_manager \<Rightarrow> int \<Rightarrow> string \<Rightarrow> 'v \<Rightarrow> int option \<Rightarrow>
     ('v, 'u, 'k) storage_manager" where
  "setCacheData sm now k d ttl_arg =
    (let ttl = (case ttl_arg of Some t \<Rightarrow> t | None \<Rightarrow> 3600000);
         record = \<lparr>cr_key = k, cr_data = d, cr_expires = now + ttl, cr_timestamp = now\<rparr>
     in case db sm of
          Some store \<Rightarrow> sm\<lparr>db := Some (store\<lparr>cache := (cache store)(k \<mapsto> record)\<rparr>)\<rparr>
        | None \<Rightarrow> sm\<lparr>localStorage := (localStorage sm)(''cache_'' @ k \<mapsto> CacheItem record)\<rparr>)"

definition removeCacheData ::
  "('v, 'u, 'k) storage_manager \<Rightarrow> string \<Rightarrow> ('v, 'u, 'k) storage_manager" where
  "removeCacheData sm k =
    (case db sm of
       Some store \<Rightarrow> sm\<lparr>db := Some (store\<lparr>cache := (cache store)(k := None)\<rparr>)\<rparr>
     | None \<Rightarrow> sm\<lparr>localStorage := (localStorage sm)(''cache_'' @ k := None)\<rparr>)"

definition cache_record_of ::
  "('v, 'u, 'k) storage_manager \<Rightarrow> string \<Rightarrow> 'v cache_record option" where
  "cache_record_of sm k =
    (case db sm of
       Some store \<Rightarrow> cache store k
     | None \<Rightarrow>
         (case localStorage sm (''cache_'' @ k) of
            Some (CacheItem r) \<Rightarrow> Some r
          | _ \<Rightarrow> None))"

definition getCacheData ::
  "('v, 'u, 'k) storage_manager \<Rightarrow> int \<Rightarrow> string \<Rightarrow> 'v option \<times> ('v, 'u, 'k) storage_manager" where
  "getCacheData sm now k =
    (case cache_record_of sm k of
       None \<Rightarrow> (None, sm)
     | Some record \<Rightarrow>
         (if now > cr_expires record then (None, removeCacheData sm k)
          else (Some (cr_data record), sm)))"

text \<open>Whether the cache has no entry under a key, in the store that is in use.\<close>

definition cache_entry_absent :: "('v, 'u, 'k) storage_manager \<Rightarrow> string \<Rightarrow> bool" where
  "cache_entry_absent sm k =
    (case db sm of
       Some store \<Rightarrow> cache store k = None
     | None \<Rightarrow> localStorage sm (''cache_'' @ k) = None)"

section \<open>ManualAuthManager\<close>

text \<open>
  The user profile, with the properties that the session handling reads and the
  secret (the API key, or the hash of the password). The form data of a login.
\<close>

record user_profile =
  email :: string
  auth_method :: string
  auth_time :: int
  secret :: string
  remember_me :: bool
  expires_at :: int


record manual_auth =
  currentUser :: "user_profile option"









text \<open>
  The storage the manager of the manual login works on: the storage manager of the
  window, or, when the window has none, \<^verbatim>\<open>localStorage\<close> itself.
\<close>

datatype ('v, 'u, 'k) window_storage =
    WithManager "('v, 'u, 'k) storage_manager"
  | NoManager "('v, 'u) local_storage"

definition userProfile_key :: string where
  "userProfile_key = ''claude_user_profile''"

definition isSessionValid :: "user_profile \<Rightarrow> int \<Rightarrow> bool" where
  "isSessionValid userProfile now = (expires_at userProfile \<noteq> 0 \<and> now < expires_at userProfile)"

definition isSignedIn :: "manual_auth \<Rightarrow> int \<Rightarrow> bool" where
  "isSignedIn auth now =
    (case currentUser auth of None \<Rightarrow> False | Some u \<Rightarrow> isSessionValid u now)"

definition storeUserProfile ::
  "(user_profile, 'k) platform \<Rightarrow> (user_profile, 'u, 'k) window_storage \<Rightarrow> rng \<Rightarrow> int \<Rightarrow>
     user_profile \<Rightarrow> js_error + (user_profile, 'u, 'k) window_storage" where
  "storeUserProfile P ws g now userProfile =
    (case ws of
       WithManager sm \<Rightarrow>
         (case setSecureData P sm g now userProfile_key userProfile of
            Inl e \<Rightarrow> Inl e
          | Inr sm' \<Rightarrow> Inr (WithManager sm'))
     | NoManager ls \<Rightarrow> Inr (NoManager (ls(userProfile_key \<mapsto> ValueItem userProfile))))"

definition clearStoredSession ::
  "(user_profile, 'u, 'k) window_storage \<Rightarrow> (user_profile, 'u, 'k) window_storage" where
  "clearStoredSession ws =
    (case ws of
       WithManager sm \<Rightarrow> WithManager (removeSecureData sm userProfile_key)
     | NoManager ls \<Rightarrow> NoManager (ls(userProfile_key := None)))"

text \<open>
  What \<^verbatim>\<open>checkExistingSession\<close> reads: the profile from the storage manager, or the
  document under the key in \<^verbatim>\<open>localStorage\<close>. A document that is no profile is an
  object without \<^verbatim>\<open>expires_at\<close>: it is no valid session, and it is cleared.
\<close>

datatype stored = Nothing | Profile user_profile | Other

definition stored_session ::
  "(user_profile, 'k) platform \<Rightarrow> (user_profile, 'u, 'k) window_storage \<Rightarrow> stored" where
  "stored_session P ws =
    (case ws of
       WithManager sm \<Rightarrow>
         (case getSecureData P sm userProfile_key of None \<Rightarrow> Nothing | Some p \<Rightarrow> Profile p)
     | NoManager ls \<Rightarrow>
         (case ls userProfile_key of
            None \<Rightarrow> Nothing
          | Some (ValueItem p) \<Rightarrow> Profile p
          | Some _ \<Rightarrow> Other))"

definition checkExistingSession ::
  "(user_profile, 'k) platform \<Rightarrow> manual_auth \<Rightarrow> (user_profile, 'u, 'k) window_storage \<Rightarrow> int \<Rightarrow>
     bool \<times> manual_auth \<times> (user_profile, 'u, 'k) window_storage" where
  "checkExistingSession P auth ws now =
    (case stored_session P ws of
       Nothing \<Rightarrow> (False, auth, ws)
     | Profile userProfile \<Rightarrow>
         (if isSessionValid userProfile now
          then (True, auth\<lparr>currentUser := Some userProfile\<rparr>, ws)
          else (False, auth, clearStoredSession ws))
     | Other \<Rightarrow> (False, auth, clearStoredSession ws))"

text \<open>
  The session of the first storage manager (the one that keeps its session in
  \<^verbatim>\<open>sessionStorage\<close>): \<^verbatim>\<open>init\<close> clears a session whose expiry is before now.
\<close>

record 'c session =
  credentials :: 'c
  expiry :: int
  createdAt :: int

definition sessionTimeout :: int where
  "sessionTimeout = 24 * 60 * 60 * 1000"

definition setSession :: "'c \<Rightarrow> int \<Rightarrow> 'c session option" where
  "setSession d now = Some \<lparr>credentials = d, expiry = now + sessionTimeout, createdAt = now\<rparr>"

definition init_session :: "'c session option \<Rightarrow> int \<Rightarrow> 'c session option" where
  "init_session session now =
    (case session of
       Some s \<Rightarrow> if expiry s < now then None else Some s
     | None \<Rightarrow> None)"

section \<open>States and inputs of the examples\<close>

text \<open>
  A manager without key and without database whose list of usage records is full: the
  1000 records with the ids 1 to 1000.
\<close>

definition numbered_record :: "int \<Rightarrow> string usage_record" where
  "numbered_record i = \<lparr>usage_id = Some i, usage_timestamp = Some i, usage_fields = ''web''\<rparr>"

definition full_manager :: "(nat, string, nat) storage_manager" where
  "full_manager =
    \<lparr>encryptionKey = None, db = None,
     localStorage = [''usage_data'' \<mapsto> UsageItem (map numbered_record [1..1000])]\<rparr>"

definition small_store :: "(nat, string) idb" where
  "small_store =
    \<lparr>secureData = Map.empty, usageData = [1 \<mapsto> numbered_record 1], cache = Map.empty\<rparr>"

definition db_manager :: "(nat, string, nat) storage_manager" where
  "db_manager = \<lparr>encryptionKey = None, db = Some small_store, localStorage = Map.empty\<rparr>"

definition empty_manager :: "('v, 'u, 'k) storage_manager" where
  "empty_manager = \<lparr>encryptionKey = None, db = None, localStorage = Map.empty\<rparr>"

definition api_request :: request where
  "api_request =
    \<lparr>url = ''https://example.com/api/usage'', req_method = ''GET'', protocol = ''https:'',
     origin = ''https://example.com'', destination = ''''\<rparr>"

definition post_request :: request where
  "post_request =
    \<lparr>url = ''https://example.com/api/usage'', req_method = ''POST'', protocol = ''https:'',
     origin = ''https://example.com'', destination = ''''\<rparr>"

text \<open>
  A small platform on which the model runs on examples. Its text coding is the UTF-8
  coding of a text of ASCII characters. Its key derivation and its cipher are stand-ins
  that have the shape of the real ones: the key is the password bytes followed by the
  salt; the cipher adds a byte of the key and the IV to every byte and appends a tag of
  16 bytes, and decryption checks the tag. Its engine accepts 125000 arguments in a
  call. The JSON functions are given to it.
\<close>

definition key_byte :: "byte list \<Rightarrow> byte list \<Rightarrow> byte" where
  "key_byte k iv = foldr (+) (k @ iv) 1"

definition example_tag :: "byte list \<Rightarrow> byte list \<Rightarrow> byte list \<Rightarrow> byte list" where
  "example_tag k iv m = replicate 16 (foldr (+) m (key_byte k iv))"

definition example_encrypt :: "byte list \<Rightarrow> byte list \<Rightarrow> byte list \<Rightarrow> byte list option" where
  "example_encrypt k iv m = Some (map (\<lambda>b. b + key_byte k iv) m @ example_tag k iv m)"

definition example_decrypt :: "byte list \<Rightarrow> byte list \<Rightarrow> byte list \<Rightarrow> byte list option" where
  "example_decrypt k iv c =
    (if length c < 16 then None
     else (let m = map (\<lambda>b. b - key_byte k iv) (take (length c - 16) c)
           in if drop (length c - 16) c = example_tag k iv m then Some m else None))"

definition example_platform_of ::
  "('v \<Rightarrow> jsstring option) \<Rightarrow> (jsstring \<Rightarrow> 'v option) \<Rightarrow> ('v, byte list) platform" where
  "example_platform_of stringify parse =
    \<lparr>JSON_stringify = stringify,
     JSON_parse = parse,
     TextEncoder_encode = map ucast,
     TextDecoder_decode = map ucast,
     PBKDF2_SHA256 = (\<lambda>pw salt n. pw @ salt),
     AES_GCM_encrypt = example_encrypt,
     AES_GCM_decrypt = example_decrypt,
     max_arguments = 125000\<rparr>"

text \<open>
  The platform for values that are strings without surrogates. The JSON text of such a
  string is the string in double quotes, with the double quote, the backslash and the
  control characters escaped. The parser reads the texts that have no escape.
\<close>

definition hex_digit :: "nat \<Rightarrow> 16 word" where
  "hex_digit n = of_nat (if n < 10 then 48 + n else 87 + n)"

definition json_escape :: "16 word \<Rightarrow> jsstring" where
  "json_escape u =
    (if u = 0x22 then [0x5C, 0x22]
     else if u = 0x5C then [0x5C, 0x5C]
     else if u = 0x08 then [0x5C, 0x62]
     else if u = 0x09 then [0x5C, 0x74]
     else if u = 0x0A then [0x5C, 0x6E]
     else if u = 0x0C then [0x5C, 0x66]
     else if u = 0x0D then [0x5C, 0x72]
     else if u < 0x20 then [0x5C, 0x75, 0x30, 0x30, hex_digit (unat u div 16), hex_digit (unat u mod 16)]
     else [u])"

definition json_quote :: "jsstring \<Rightarrow> jsstring" where
  "json_quote s = [0x22] @ concat (map json_escape s) @ [0x22]"

definition plain_unit :: "16 word \<Rightarrow> bool" where
  "plain_unit u = (0x20 \<le> u \<and> u \<noteq> 0x22 \<and> u \<noteq> 0x5C)"

definition parse_quoted :: "jsstring \<Rightarrow> jsstring option" where
  "parse_quoted t =
    (if 2 \<le> length t \<and> hd t = 0x22 \<and> last t = 0x22 \<and> list_all plain_unit (butlast (tl t))
     then Some (butlast (tl t))
     else None)"

definition example_platform :: "(jsstring, byte list) platform" where
  "example_platform = example_platform_of (\<lambda>s. Some (json_quote s)) parse_quoted"

definition counting_rng :: rng where
  "counting_rng i = of_nat i"

text \<open>A string of 130000 letters \<^verbatim>\<open>a\<close>.\<close>

definition large_string :: jsstring where
  "large_string = replicate 130000 0x61"




text \<open>
  Managers of the examples that hold strings: one without an encryption key, one with
  a key, both without database; and the example platform with an AES-GCM whose
  encryption throws.
\<close>

definition keyless_manager :: "(jsstring, string, byte list) storage_manager" where
  "keyless_manager = \<lparr>encryptionKey = None, db = None, localStorage = Map.empty\<rparr>"

definition keyed_manager :: "(jsstring, string, byte list) storage_manager" where
  "keyed_manager = \<lparr>encryptionKey = Some [1, 2, 3], db = None, localStorage = Map.empty\<rparr>"

definition failing_platform :: "(jsstring, byte list) platform" where
  "failing_platform = example_platform\<lparr>AES_GCM_encrypt := (\<lambda>k iv m. None)\<rparr>"









section \<open>Properties of the base64 coding\<close>

lemma unat_of_nat16: "n < 65536 \<Longrightarrow> unat (of_nat n :: 16 word) = n"
  by (simp add: unat_of_nat)

lemma b64_code_less: "b64_code n < 128"
  by (auto simp: b64_code_def)

lemma b64_sextet_code: "n < 64 \<Longrightarrow> b64_sextet (b64_code n) = Some n"
  by (auto simp: b64_sextet_def b64_code_def)

lemma unat_b64_unit: "unat (b64_unit n) = b64_code n"
proof -
  have "b64_code n < 128" by (rule b64_code_less)
  then have "b64_code n < 65536" by linarith
  then show ?thesis unfolding b64_unit_def by (simp only: unat_of_nat16)
qed

lemma b64_index_unit: "n < 64 \<Longrightarrow> b64_index (b64_unit n) = Some n"
  by (simp add: b64_index_def unat_b64_unit b64_sextet_code)

lemma b64_index_ws: "is_ascii_whitespace u \<Longrightarrow> b64_index u = None"
  by (auto simp: is_ascii_whitespace_def b64_index_def b64_sextet_def)

lemma b64_index_pad: "b64_index pad = None"
  by (simp add: pad_def b64_index_def b64_sextet_def)

lemma b64_unit_not_ws: "n < 64 \<Longrightarrow> \<not> is_ascii_whitespace (b64_unit n)"
  using b64_index_ws [of "b64_unit n"] by (auto simp: b64_index_unit)

lemma b64_unit_not_pad: "n < 64 \<Longrightarrow> b64_unit n \<noteq> pad"
  using b64_index_pad b64_index_unit [of n] by (metis option.distinct(1))

lemma pad_not_ws: "\<not> is_ascii_whitespace pad"
  by (simp add: is_ascii_whitespace_def pad_def)

lemma enc_sextets_lt: "\<forall>b\<in>set bs. b < 256 \<Longrightarrow> \<forall>s\<in>set (enc_sextets bs). s < 64"
  by (induction bs rule: enc_sextets.induct) auto

lemma dec_enc_sextets: "\<forall>b\<in>set bs. b < 256 \<Longrightarrow> dec_sextets (enc_sextets bs) = bs"
  by (induction bs rule: enc_sextets.induct) auto

lemma less_three_le_two: "k < 3 \<Longrightarrow> k \<le> (2::nat)"
  by simp

lemma length_enc_sextets_padded:
  "(length (enc_sextets bs) + (3 - length bs mod 3) mod 3) mod 4 = 0"
  by (induction bs rule: enc_sextets.induct) simp_all

lemma length_enc_sextets_mod: "length (enc_sextets bs) mod 4 \<noteq> 1"
  by (induction bs rule: enc_sextets.induct) simp_all

lemma enc_sextets_empty: "enc_sextets bs = [] \<longleftrightarrow> bs = []"
  by (cases bs rule: enc_sextets.cases) simp_all

lemma those_index_unit:
  "\<forall>s\<in>set sx. s < 64 \<Longrightarrow> those (map b64_index (map b64_unit sx)) = Some sx"
  by (induction sx) (auto simp: b64_index_unit)

lemma filter_ws_units:
  "\<forall>s\<in>set sx. s < 64 \<Longrightarrow>
     filter (\<lambda>u. \<not> is_ascii_whitespace u) (map b64_unit sx @ replicate k pad) =
       map b64_unit sx @ replicate k pad"
  by (auto simp: filter_id_conv b64_unit_not_ws pad_not_ws)

lemma strip_padding_units:
  assumes "\<forall>s\<in>set sx. s < 64" and "k \<le> 2" and "k > 0 \<longrightarrow> sx \<noteq> []"
  shows "strip_padding (map b64_unit sx @ replicate k pad) = map b64_unit sx"
proof -
  have nopad: "sx \<noteq> [] \<Longrightarrow> last (map b64_unit sx) \<noteq> pad"
    using assms(1) by (simp add: last_map b64_unit_not_pad)
  from assms(2) consider "k = 0" | "k = 1" | "k = 2" by linarith
  then show ?thesis
  proof cases
    case 1
    then show ?thesis using nopad by (cases "sx = []") (auto simp: strip_padding_def)
  next
    case 2
    then show ?thesis using nopad assms(3) by (auto simp: strip_padding_def)
  next
    case 3
    then have r: "replicate k pad = [pad, pad]" by (simp add: numeral_2_eq_2)
    have "map b64_unit sx @ [pad, pad] = (map b64_unit sx @ [pad]) @ [pad]" by simp
    then show ?thesis using nopad assms(3) unfolding r strip_padding_def
      by (simp add: butlast_append del: append_assoc append.simps)
  qed
qed

lemma length_b64_encode: "length (b64_encode bs) mod 4 = 0"
  using length_enc_sextets_padded [of bs] by (simp add: b64_encode_def)

lemma atob_b64_encode:
  assumes "\<forall>b\<in>set bs. b < 256"
  shows "atob (b64_encode bs) = Some (map of_nat bs)"
proof -
  let ?sx = "enc_sextets bs" and ?k = "(3 - length bs mod 3) mod 3"
  have lt: "\<forall>s\<in>set ?sx. s < 64" using assms by (rule enc_sextets_lt)
  have "?k < 3" by (rule mod_less_divisor) simp
  then have k2: "?k \<le> 2" by (rule less_three_le_two)
  have "0 < ?k \<longrightarrow> bs \<noteq> []" by auto
  then have ne: "0 < ?k \<longrightarrow> ?sx \<noteq> []"
    by (simp add: enc_sextets_empty)
  have f: "filter (\<lambda>u. \<not> is_ascii_whitespace u) (b64_encode bs) = b64_encode bs"
    unfolding b64_encode_def by (rule filter_ws_units [OF lt])
  have s: "strip_padding (b64_encode bs) = map b64_unit ?sx"
    unfolding b64_encode_def by (rule strip_padding_units [OF lt k2 ne])
  show ?thesis
    unfolding atob_def f
    using length_enc_sextets_mod [of bs]
    by (simp add: length_b64_encode s those_index_unit [OF lt] dec_enc_sextets [OF assms]
        del: map_map)
qed

lemma atob_btoa: "btoa s = Some b \<Longrightarrow> atob b = Some s"
proof -
  assume a: "btoa s = Some b"
  then have all: "list_all (\<lambda>u. u \<le> 0xFF) s" and b: "b = b64_encode (map unat s)"
    by (auto simp: btoa_def split: if_splits)
  have "\<forall>n\<in>set (map unat s). n < 256"
    using all by (auto simp: list_all_iff word_le_nat_alt)
  then have "atob b = Some (map of_nat (map unat s))"
    unfolding b by (rule atob_b64_encode)
  then show ?thesis by (simp add: comp_def)
qed

section \<open>Properties of the service worker\<close>

lemma networkFirst_offline:
  "net req = None \<Longrightarrow>
     networkFirst net cs req =
       (case caches_match cs (url req) of Some r \<Rightarrow> (r, cs) | None \<Rightarrow> (offline_response, cs))"
  by (simp add: networkFirst_def)

lemma networkFirst_online:
  "net req = Some r \<Longrightarrow> fst (networkFirst net cs req) = r"
  by (simp add: networkFirst_def)

lemma offline_response_body: "str_includes (body offline_response) ''\"offline\":true''"
  by (simp add: offline_response_def str_includes_def sublist_code)

lemma fetch_listener_networkFirst:
  assumes "req_method req = ''GET''" and "protocol req \<noteq> ''chrome-extension:''"
    and "isNetworkFirst (url req)"
  shows "fetch_listener net cs req =
           (RespondWith (fst (networkFirst net cs req)), snd (networkFirst net cs req))"
  using assms by (simp add: fetch_listener_def split_beta)

text \<open>
  Claim C7. A GET request that is classified network-first is always answered with a
  response. When the fetch rejects, the answer is the cached response of the request,
  and when no cache has one, it is the synthetic response of status 503 whose JSON body
  has \<^verbatim>\<open>"offline":true\<close>; the caches are left as they were. The rejection never
  reaches the page.
\<close>

theorem networkFirst_failure_served_from_cache_or_offline:
  assumes "req_method req = ''GET''" and "protocol req \<noteq> ''chrome-extension:''"
    and "isNetworkFirst (url req)"
  shows "(net req = None \<longrightarrow>
            fetch_listener net cs req =
              (RespondWith (case caches_match cs (url req) of
                              Some cached \<Rightarrow> cached | None \<Rightarrow> offline_response), cs))
         \<and> (\<exists>r. fst (fetch_listener net cs req) = RespondWith r)
         \<and> status offline_response = 503
         \<and> str_includes (body offline_response) ''\"offline\":true''"
proof -
  have step: "fetch_listener net cs req =
      (RespondWith (fst (networkFirst net cs req)), snd (networkFirst net cs req))"
    by (rule fetch_listener_networkFirst [OF assms])
  have down: "net req = None \<longrightarrow>
      fetch_listener net cs req =
        (RespondWith (case caches_match cs (url req) of
                        Some cached \<Rightarrow> cached | None \<Rightarrow> offline_response), cs)"
    by (simp add: step networkFirst_offline split: option.split)
  have always: "\<exists>r. fst (fetch_listener net cs req) = RespondWith r"
    by (simp add: step)
  have code: "status offline_response = 503"
    by (simp add: offline_response_def)
  from down always code offline_response_body show ?thesis by blast
qed

theorem networkFirst_failure_served_from_cache_or_offline_witness:
  "req_method api_request = ''GET'' \<and> protocol api_request \<noteq> ''chrome-extension:''
   \<and> isNetworkFirst (url api_request)
   \<and> fetch_listener (\<lambda>_. None) [] api_request = (RespondWith offline_response, [])"
proof -
  have m: "req_method api_request = ''GET''" by (simp add: api_request_def)
  have p: "protocol api_request \<noteq> ''chrome-extension:''" by (simp add: api_request_def)
  have n: "isNetworkFirst (url api_request)"
    by (simp add: api_request_def isNetworkFirst_def NETWORK_FIRST_def str_includes_def
        sublist_code)
  from networkFirst_failure_served_from_cache_or_offline [OF m p n, of "\<lambda>_. None" "[]"]
  have "fetch_listener (\<lambda>_. None) [] api_request = (RespondWith offline_response, [])"
    by simp
  with m p n show ?thesis by blast
qed

text \<open>
  Claim C10. For a request whose method is not GET, the fetch listener of either
  version of the service worker returns without \<^verbatim>\<open>respondWith\<close>, whatever the network
  and the caches are, and it leaves every cache as it was.
\<close>

theorem non_GET_request_passes_through:
  "req_method req \<noteq> ''GET'' \<Longrightarrow>
     fetch_listener net cs req = (PassThrough, cs) \<and>
     fetch_listener_v1 net cs req = (PassThrough, cs)"
  by (simp add: fetch_listener_def fetch_listener_v1_def)

theorem non_GET_request_passes_through_witness:
  "req_method post_request \<noteq> ''GET'' \<and>
   fetch_listener (\<lambda>_. Some offline_response) [(DYNAMIC_CACHE, [])] post_request =
     (PassThrough, [(DYNAMIC_CACHE, [])]) \<and>
   fetch_listener_v1 (\<lambda>_. Some offline_response) [(DYNAMIC_CACHE, [])] post_request =
     (PassThrough, [(DYNAMIC_CACHE, [])])"
proof -
  have m: "req_method post_request \<noteq> ''GET''" by (simp add: post_request_def)
  from non_GET_request_passes_through [OF m] m show ?thesis by blast
qed

section \<open>Properties of CryptoUtils\<close>

lemma unat_ucast_byte: "unat (ucast (b :: byte) :: 16 word) = unat b"
proof -
  have "unat b < 2 ^ 8" using unsigned_less [of b, where ?'a = nat] by simp
  then have "unat b < 2 ^ 16" by simp
  then show ?thesis by (simp add: unsigned_ucast_eq take_bit_nat_eq_self)
qed

lemma ucast_byte_le: "(ucast (b :: byte) :: 16 word) \<le> 0xFF"
proof -
  have "unat b < 256" using unsigned_less [of b, where ?'a = nat] by simp
  then show ?thesis by (simp add: word_le_nat_alt unat_ucast_byte)
qed


lemma btoa_bytes: "btoa (map ucast (bs :: byte list)) = Some (b64_encode (map unat bs))"
  by (simp add: btoa_def list_all_iff ucast_byte_le unat_ucast_byte comp_def)



lemma fromCharCode_within:
  "length bs \<le> max_arguments P \<Longrightarrow> fromCharCode P bs = Some (map ucast bs)"
  by (simp add: fromCharCode_def)

lemma fromCharCode_beyond:
  "max_arguments P < length bs \<Longrightarrow> fromCharCode P bs = None"
  by (simp add: fromCharCode_def)

lemma length_getRandomValues: "length (fst (getRandomValues g n)) = n"
  by (simp add: getRandomValues_def)



lemma drop_both: "length a = n \<Longrightarrow> length b = m \<Longrightarrow> drop (n + m) (a @ b @ c) = c"
  by simp


text \<open>
  The salt and the IV of an encryption, and what \<^verbatim>\<open>encrypt\<close> and \<^verbatim>\<open>decrypt\<close> do
  with them: \<^verbatim>\<open>encrypt\<close> gives the base64 text when salt, IV and ciphertext are
  together no more bytes than the engine accepts arguments, and fails when they are
  more.
\<close>

lemma length_encryption_salt: "length (encryption_salt g) = saltLength"
  by (simp add: encryption_salt_def length_getRandomValues)

lemma length_encryption_iv: "length (encryption_iv g) = ivLength"
  by (simp add: encryption_iv_def length_getRandomValues)


lemma encrypt_beyond_limit:
  assumes "JSON_stringify P v = Some jt"
    and "AES_GCM_encrypt P (deriveKey P p (encryption_salt g)) (encryption_iv g)
           (TextEncoder_encode P jt) = Some ct"
    and "max_arguments P < saltLength + ivLength + length ct"
  shows "encrypt P g v p = Inl Failed_to_encrypt_data"
proof -
  have "max_arguments P < length (encryption_salt g @ encryption_iv g @ ct)"
    using assms(3) by (simp add: length_encryption_salt length_encryption_iv)
  then have "fromCharCode P (encryption_salt g @ encryption_iv g @ ct) = None"
    by (rule fromCharCode_beyond)
  then show ?thesis
    using assms(1,2)
    by (simp add: encrypt_def encryption_salt_def encryption_iv_def split_beta Let_def)
qed


lemma aes_gcm_correctD:
  assumes "aes_gcm_correct P"
  shows "\<exists>c. AES_GCM_encrypt P k iv m = Some c \<and> AES_GCM_decrypt P k iv c = Some m"
proof -
  from assms have "case AES_GCM_encrypt P k iv m of
      None \<Rightarrow> False | Some c \<Rightarrow> AES_GCM_decrypt P k iv c = Some m"
    unfolding aes_gcm_correct_def by blast
  then show ?thesis by (cases "AES_GCM_encrypt P k iv m") simp_all
qed


text \<open>The example platform: its cipher is correct, and its JSON functions on strings.\<close>

lemma example_aes_gcm_correct: "aes_gcm_correct (example_platform_of st pa)"
  by (simp add: aes_gcm_correct_def example_platform_of_def example_encrypt_def
      example_decrypt_def example_tag_def comp_def Let_def)

lemma concat_replicate_single: "concat (replicate n [x]) = replicate n x"
  by (induction n) simp_all

lemma json_quote_letters:
  "json_quote (replicate n 0x61) = 0x22 # replicate n 0x61 @ [0x22]"
  by (simp add: json_quote_def json_escape_def concat_replicate_single)

lemma parse_quoted_letters:
  "parse_quoted (0x22 # replicate n 0x61 @ [0x22]) = Some (replicate n 0x61)"
  by (simp add: parse_quoted_def plain_unit_def list_all_iff)

lemma letters_serialisable: "json_serialisable example_platform (replicate n 0x61)"
  by (simp add: json_serialisable_def example_platform_def example_platform_of_def
      json_quote_letters parse_quoted_letters)

lemma encrypt_letters_beyond_limit:
  assumes "125000 < n"
  shows "encrypt example_platform g (replicate n 0x61) p = Inl Failed_to_encrypt_data"
proof -
  let ?P = "example_platform"
  let ?jt = "0x22 # replicate n 0x61 @ [0x22]"
  let ?k = "deriveKey ?P p (encryption_salt g)"
  let ?m = "TextEncoder_encode ?P ?jt"
  let ?ct = "map (\<lambda>b. b + key_byte ?k (encryption_iv g)) ?m @ example_tag ?k (encryption_iv g) ?m"
  have jt: "JSON_stringify ?P (replicate n 0x61) = Some ?jt"
    by (simp add: example_platform_def example_platform_of_def json_quote_letters)
  have ct: "AES_GCM_encrypt ?P ?k (encryption_iv g) ?m = Some ?ct"
    by (simp add: example_platform_def example_platform_of_def example_encrypt_def)
  have "length ?m = n + 2"
    by (simp add: example_platform_def example_platform_of_def)
  then have "length ?ct = n + 18"
    by (simp add: example_tag_def)
  moreover have "max_arguments ?P = 125000"
    by (simp add: example_platform_def example_platform_of_def)
  ultimately have "max_arguments ?P < saltLength + ivLength + length ?ct"
    using assms by simp
  with jt ct show ?thesis by (rule encrypt_beyond_limit)
qed

text \<open>
  Claim C1. \<^verbatim>\<open>decrypt(encrypt(v, p), p) == v\<close> asks \<^verbatim>\<open>encrypt\<close> to return a text for
  every JSON-serialisable value. For the string of 130000 letters \<^verbatim>\<open>a\<close>, which is
  JSON-serialisable, salt, IV and ciphertext are 130046 bytes, more than the engine
  accepts as arguments of \<^verbatim>\<open>String.fromCharCode(...combined)\<close>: \<^verbatim>\<open>encrypt\<close> fails
  with \<^verbatim>\<open>Error('Failed to encrypt data')\<close>, whatever the random bytes and the password
  are, and there is no text to decrypt.
\<close>

theorem encrypt_large_string_fails:
  "json_serialisable example_platform large_string \<and>
   encrypt example_platform g large_string p = Inl Failed_to_encrypt_data"
  unfolding large_string_def
  using letters_serialisable [of 130000] encrypt_letters_beyond_limit [of 130000 g p]
  by simp

section \<open>Properties of the detection of a changed text\<close>





















section \<open>Properties of the secure data\<close>

lemma fallbackEncrypt_base64:
  assumes "JSON_stringify P d = Some jt" and "btoa jt = Some b"
  shows "fallbackEncrypt P d = Inr b"
  using assms by (simp add: fallbackEncrypt_def)

lemma encryptData_no_key:
  assumes "encryptionKey sm = None"
  shows "encryptData P sm g d = fallbackEncrypt P d"
  using assms by (simp add: encryptData_def)

lemma encryptData_with_key:
  assumes "encryptionKey sm = Some key" and "JSON_stringify P d = Some jt"
    and "AES_GCM_encrypt P key (fst (getRandomValues g 12)) (TextEncoder_encode P jt) = Some ct"
    and "12 + length ct \<le> max_arguments P"
  shows "encryptData P sm g d = Inr (b64_encode (map unat (fst (getRandomValues g 12) @ ct)))"
proof -
  have "length (fst (getRandomValues g 12) @ ct) \<le> max_arguments P"
    using assms(4) by (simp add: length_getRandomValues)
  then have "fromCharCode P (fst (getRandomValues g 12) @ ct) =
      Some (map ucast (fst (getRandomValues g 12) @ ct))"
    by (rule fromCharCode_within)
  then show ?thesis
    using assms(1,2,3) btoa_bytes [of "fst (getRandomValues g 12) @ ct"]
    by (simp add: encryptData_def split_beta Let_def del: map_append)
qed

lemma encryptData_aes_fails:
  assumes "encryptionKey sm = Some key" and "JSON_stringify P d = Some jt"
    and "AES_GCM_encrypt P key (fst (getRandomValues g 12)) (TextEncoder_encode P jt) = None"
  shows "encryptData P sm g d = fallbackEncrypt P d"
  using assms by (simp add: encryptData_def split_beta Let_def)

lemma setSecureData_record:
  assumes "encryptData P sm g d = Inr e"
  shows "\<exists>sm'. setSecureData P sm g now k d = Inr sm' \<and>
           secure_record_of sm' k = Some \<lparr>sr_key = k, sr_data = e, sr_timestamp = now\<rparr> \<and>
           encryptionKey sm' = encryptionKey sm"
  using assms
  by (cases "db sm") (simp_all add: setSecureData_def secure_record_of_def Let_def)

lemma replicate_two: "replicate 2 x = [x, x]"
  by (simp add: numeral_2_eq_2)

text \<open>
  Claim C3 says that the persisted record never holds the value merely base64-encoded.
  A manager without encryption key (Web Crypto is missing, or the key could not be made)
  that stores the string \<^verbatim>\<open>hi\<close> under \<^verbatim>\<open>api_token\<close> persists the text
  \<^verbatim>\<open>ImhpIg==\<close>, and \<^verbatim>\<open>atob\<close> of this text is the JSON text of the string.
\<close>

theorem setSecureData_without_key_stores_base64_counterexample:
  "(case setSecureData example_platform keyless_manager counting_rng 1000 ''api_token''
           (js ''hi'') of
      Inl e \<Rightarrow> False
    | Inr sm \<Rightarrow>
        secure_record_of sm ''api_token'' =
          Some \<lparr>sr_key = ''api_token'', sr_data = js ''ImhpIg=='', sr_timestamp = 1000\<rparr>) \<and>
   atob (js ''ImhpIg=='') = JSON_stringify example_platform (js ''hi'')"
  by (simp add: setSecureData_def encryptData_def fallbackEncrypt_def keyless_manager_def
      secure_record_of_def example_platform_def example_platform_of_def json_quote_def
      json_escape_def js_def btoa_def b64_encode_def b64_unit_def b64_code_def pad_def
      atob_def is_ascii_whitespace_def strip_padding_def b64_index_def b64_sextet_def
      Let_def replicate_two)

text \<open>
  Claim C3, amended. \<^verbatim>\<open>setSecureData\<close> persists a record of the key, the text that
  \<^verbatim>\<open>encryptData\<close> returns and the time. With an encryption key, when AES-GCM
  encrypts and IV and ciphertext are together no more bytes than the engine accepts
  arguments, the text is the base64 text of the fresh IV followed by the ciphertext of
  the JSON text of the value. Without an encryption key, and with a key when AES-GCM
  throws, the text is the base64 text of the JSON text of the value, for a JSON text of
  Latin-1 characters: \<^verbatim>\<open>atob\<close> gives the JSON text back.
\<close>

theorem setSecureData_persists_ciphertext_or_base64:
  "(encryptionKey sm = Some key \<and> JSON_stringify P d = Some jt \<and>
    AES_GCM_encrypt P key (fst (getRandomValues g 12)) (TextEncoder_encode P jt) = Some ct \<and>
    12 + length ct \<le> max_arguments P \<longrightarrow>
      (\<exists>sm'. setSecureData P sm g now k d = Inr sm' \<and>
         secure_record_of sm' k =
           Some \<lparr>sr_key = k,
                 sr_data = b64_encode (map unat (fst (getRandomValues g 12) @ ct)),
                 sr_timestamp = now\<rparr>)) \<and>
   ((encryptionKey sm = None \<or>
     encryptionKey sm = Some key \<and>
     AES_GCM_encrypt P key (fst (getRandomValues g 12)) (TextEncoder_encode P jt) = None) \<and>
    JSON_stringify P d = Some jt \<and> btoa jt = Some b \<longrightarrow>
      (\<exists>sm'. setSecureData P sm g now k d = Inr sm' \<and>
         secure_record_of sm' k = Some \<lparr>sr_key = k, sr_data = b, sr_timestamp = now\<rparr> \<and>
         atob b = Some jt))"
proof (intro conjI impI)
  assume a: "encryptionKey sm = Some key \<and> JSON_stringify P d = Some jt \<and>
    AES_GCM_encrypt P key (fst (getRandomValues g 12)) (TextEncoder_encode P jt) = Some ct \<and>
    12 + length ct \<le> max_arguments P"
  then have "encryptData P sm g d =
      Inr (b64_encode (map unat (fst (getRandomValues g 12) @ ct)))"
    using encryptData_with_key [of sm key P d jt g ct] by blast
  from setSecureData_record [OF this]
  show "\<exists>sm'. setSecureData P sm g now k d = Inr sm' \<and>
         secure_record_of sm' k =
           Some \<lparr>sr_key = k,
                 sr_data = b64_encode (map unat (fst (getRandomValues g 12) @ ct)),
                 sr_timestamp = now\<rparr>"
    by blast
next
  assume a: "(encryptionKey sm = None \<or>
     encryptionKey sm = Some key \<and>
     AES_GCM_encrypt P key (fst (getRandomValues g 12)) (TextEncoder_encode P jt) = None) \<and>
    JSON_stringify P d = Some jt \<and> btoa jt = Some b"
  then have jt: "JSON_stringify P d = Some jt" and b: "btoa jt = Some b"
    by simp_all
  from a have "encryptData P sm g d = fallbackEncrypt P d"
    using encryptData_no_key [of sm P g d] encryptData_aes_fails [of sm key P d jt g]
    by blast
  then have "encryptData P sm g d = Inr b"
    by (simp add: fallbackEncrypt_base64 [OF jt b])
  from setSecureData_record [OF this] atob_btoa [OF b]
  show "\<exists>sm'. setSecureData P sm g now k d = Inr sm' \<and>
         secure_record_of sm' k = Some \<lparr>sr_key = k, sr_data = b, sr_timestamp = now\<rparr> \<and>
         atob b = Some jt"
    by blast
qed

lemma btoa_quoted_hi: "btoa (json_quote (js ''hi'')) = Some (js ''ImhpIg=='')"
  by (simp add: json_quote_def json_escape_def js_def btoa_def b64_encode_def b64_unit_def
      b64_code_def pad_def replicate_two)

lemma example_encrypt_length: "example_encrypt k iv m = Some c \<Longrightarrow> length c = length m + 16"
  by (auto simp: example_encrypt_def example_tag_def)

theorem setSecureData_persists_ciphertext_or_base64_witness:
  "(\<exists>ct sm'. AES_GCM_encrypt example_platform [1, 2, 3] (fst (getRandomValues counting_rng 12))
        (TextEncoder_encode example_platform (json_quote (js ''hi''))) = Some ct \<and>
      12 + length ct \<le> max_arguments example_platform \<and>
      setSecureData example_platform keyed_manager counting_rng 1000 ''api_token'' (js ''hi'') =
        Inr sm' \<and>
      secure_record_of sm' ''api_token'' =
        Some \<lparr>sr_key = ''api_token'',
              sr_data = b64_encode (map unat (fst (getRandomValues counting_rng 12) @ ct)),
              sr_timestamp = 1000\<rparr>) \<and>
   (\<exists>sm'. encryptionKey keyless_manager = None \<and>
      setSecureData example_platform keyless_manager counting_rng 1000 ''api_token'' (js ''hi'') =
        Inr sm' \<and>
      secure_record_of sm' ''api_token'' =
        Some \<lparr>sr_key = ''api_token'', sr_data = js ''ImhpIg=='', sr_timestamp = 1000\<rparr>) \<and>
   (\<exists>sm'. AES_GCM_encrypt failing_platform [1, 2, 3] (fst (getRandomValues counting_rng 12))
        (TextEncoder_encode failing_platform (json_quote (js ''hi''))) = None \<and>
      setSecureData failing_platform keyed_manager counting_rng 1000 ''api_token'' (js ''hi'') =
        Inr sm' \<and>
      secure_record_of sm' ''api_token'' =
        Some \<lparr>sr_key = ''api_token'', sr_data = js ''ImhpIg=='', sr_timestamp = 1000\<rparr>)"
proof -
  let ?iv = "fst (getRandomValues counting_rng 12)"
  let ?jt = "json_quote (js ''hi'')"
  obtain ct where ct: "AES_GCM_encrypt example_platform [1, 2, 3] ?iv
      (TextEncoder_encode example_platform ?jt) = Some ct"
    by (simp add: example_platform_def example_platform_of_def example_encrypt_def)
  then have "length ct = length ?jt + 16"
    by (simp add: example_platform_def example_platform_of_def example_encrypt_length)
  then have fits: "12 + length ct \<le> max_arguments example_platform"
    by (simp add: example_platform_def example_platform_of_def json_quote_def json_escape_def
        js_def)
  have jt: "JSON_stringify example_platform (js ''hi'') = Some ?jt"
    by (simp add: example_platform_def example_platform_of_def)
  have jtf: "JSON_stringify failing_platform (js ''hi'') = Some ?jt"
    by (simp add: failing_platform_def example_platform_def example_platform_of_def)
  have fails: "AES_GCM_encrypt failing_platform [1, 2, 3] ?iv
      (TextEncoder_encode failing_platform ?jt) = None"
    by (simp add: failing_platform_def)
  have keyed: "encryptionKey keyed_manager = Some [1, 2, 3]"
    by (simp add: keyed_manager_def)
  have keyless: "encryptionKey keyless_manager = None"
    by (simp add: keyless_manager_def)
  show ?thesis
    using setSecureData_persists_ciphertext_or_base64
        [where sm = keyed_manager and key = "[1, 2, 3]" and P = example_platform
          and d = "js ''hi''" and jt = ?jt and g = counting_rng and ct = ct and now = 1000
          and k = "''api_token''"]
      setSecureData_persists_ciphertext_or_base64
        [where sm = keyless_manager and key = "[1, 2, 3]" and P = example_platform
          and d = "js ''hi''" and jt = ?jt and g = counting_rng and ct = ct and now = 1000
          and k = "''api_token''" and b = "js ''ImhpIg==''"]
      setSecureData_persists_ciphertext_or_base64
        [where sm = keyed_manager and key = "[1, 2, 3]" and P = failing_platform
          and d = "js ''hi''" and jt = ?jt and g = counting_rng and ct = ct and now = 1000
          and k = "''api_token''" and b = "js ''ImhpIg==''"]
      ct fits jt jtf fails keyed keyless btoa_quoted_hi
    by blast
qed

section \<open>Properties of the usage data\<close>

lemma length_splice_last_1000: "length (splice_last_1000 xs) = min 1000 (length xs)"
  by (simp add: splice_last_1000_def)

lemma suffix_splice_last_1000: "suffix (splice_last_1000 xs) xs"
  by (simp add: splice_last_1000_def suffix_drop)

lemma storeUsageData_fallback:
  assumes "db sm = None" and "usage_data_is_list sm"
  shows "storeUsageData sm now d =
           Inr (sm\<lparr>localStorage := (localStorage sm)(''usage_data'' \<mapsto>
                  UsageItem (splice_last_1000 (usage_list sm @ [usage_record_of d now])))\<rparr>)"
  using assms
  by (auto simp: storeUsageData_def usage_data_is_list_def usage_list_def Let_def
      split: option.splits ls_item.splits)

lemma usage_list_update:
  "usage_list (sm\<lparr>localStorage := (localStorage sm)(''usage_data'' \<mapsto> UsageItem xs)\<rparr>) = xs"
  by (simp add: usage_list_def)

text \<open>
  Claim C9. Without the database, storing a usage record always succeeds when the
  document under \<^verbatim>\<open>usage_data\<close> is a list (or there is none yet), and afterwards the
  list is the end of the old list followed by the new record, of at most 1000 records:
  the new record is its last, and the records dropped are the oldest.
\<close>

theorem fallback_usage_data_keeps_last_1000:
  assumes "db sm = None" and "usage_data_is_list sm"
  shows "\<exists>sm'. storeUsageData sm now d = Inr sm'
           \<and> db sm' = None \<and> usage_data_is_list sm'
           \<and> length (usage_list sm') \<le> 1000
           \<and> length (usage_list sm') = min 1000 (length (usage_list sm) + 1)
           \<and> suffix (usage_list sm') (usage_list sm @ [usage_record_of d now])
           \<and> last (usage_list sm') = usage_record_of d now"
proof -
  let ?new = "usage_list sm @ [usage_record_of d now]"
  let ?sm' = "sm\<lparr>localStorage := (localStorage sm)(''usage_data'' \<mapsto>
                 UsageItem (splice_last_1000 ?new))\<rparr>"
  have res: "storeUsageData sm now d = Inr ?sm'"
    by (rule storeUsageData_fallback [OF assms])
  have list: "usage_list ?sm' = splice_last_1000 ?new"
    by (simp add: usage_list_def)
  have len: "length (usage_list ?sm') = min 1000 (length (usage_list sm) + 1)"
    by (simp add: list length_splice_last_1000)
  have suf: "suffix (usage_list ?sm') ?new"
    by (simp only: list suffix_splice_last_1000)
  have ne: "usage_list ?sm' \<noteq> []"
    using len by auto
  from suf obtain zs where zs: "?new = zs @ usage_list ?sm'"
    by (auto simp: suffix_def)
  have lst: "last (usage_list ?sm') = usage_record_of d now"
    using ne last_appendR [of "usage_list ?sm'" zs] zs
    by (metis last_snoc)
  have "db ?sm' = None" using assms(1) by simp
  moreover have "usage_data_is_list ?sm'" by (simp add: usage_data_is_list_def)
  moreover have "length (usage_list ?sm') \<le> 1000" using len by simp
  ultimately show ?thesis using res len suf lst by blast
qed

lemma usage_list_full_manager: "usage_list full_manager = map numbered_record [1..1000]"
  by (simp add: usage_list_def full_manager_def)

theorem fallback_usage_data_keeps_last_1000_witness:
  "db full_manager = None \<and> usage_data_is_list full_manager
   \<and> (\<exists>sm'. storeUsageData full_manager 5000 (numbered_record 1001) = Inr sm'
          \<and> length (usage_list sm') = 1000
          \<and> last (usage_list sm') = usage_record_of (numbered_record 1001) 5000)"
proof -
  have a: "db full_manager = None" by (simp add: full_manager_def)
  have b: "usage_data_is_list full_manager"
    by (simp add: full_manager_def usage_data_is_list_def)
  from fallback_usage_data_keeps_last_1000 [OF a b, of 5000 "numbered_record 1001"]
  obtain sm' where "storeUsageData full_manager 5000 (numbered_record 1001) = Inr sm'"
    and "length (usage_list sm') = min 1000 (length (usage_list full_manager) + 1)"
    and "last (usage_list sm') = usage_record_of (numbered_record 1001) 5000"
    by blast
  then show ?thesis using a b by (auto simp: usage_list_full_manager simp del: upto_rec_numeral)
qed

text \<open>
  Claim C8, as it is written, fails: when the list in \<^verbatim>\<open>localStorage\<close> holds 1000
  records, storing one more drops the oldest record, which was stored before.
\<close>

lemma drop_one_of_full:
  "splice_last_1000 (map numbered_record [1..1000] @ [r]) = map numbered_record [2..1000] @ [r]"
proof -
  have "[1..1000] = 1 # [2..1000]" by (simp add: upto_rec1 del: upto_rec_numeral)
  then show ?thesis by (simp add: splice_last_1000_def del: upto_rec_numeral)
qed

theorem append_drops_oldest_record_counterexample:
  "(case storeUsageData full_manager 5000 (numbered_record 1001) of
      Inr sm' \<Rightarrow>
        numbered_record 1 \<in> set (usage_list full_manager) \<and>
        numbered_record 1 \<notin> set (usage_list sm')
    | Inl e \<Rightarrow> False)"
proof -
  have a: "db full_manager = None" by (simp add: full_manager_def)
  have b: "usage_data_is_list full_manager"
    by (simp add: full_manager_def usage_data_is_list_def)
  have new: "numbered_record 1 \<noteq> usage_record_of (numbered_record 1001) 5000"
    by (simp add: usage_record_of_def record_id_def numbered_record_def)
  have inj: "numbered_record i = numbered_record j \<longleftrightarrow> i = j" for i j
    by (simp add: numbered_record_def)
  have old: "numbered_record 1 \<in> set (usage_list full_manager)"
    by (simp add: usage_list_full_manager del: upto_rec_numeral)
  have gone: "numbered_record 1 \<notin> set (map numbered_record [2..1000] @
      [usage_record_of (numbered_record 1001) 5000])"
    using new by (auto simp: inj simp del: upto_rec_numeral)
  have "usage_list (full_manager\<lparr>localStorage := (localStorage full_manager)(''usage_data'' \<mapsto>
      UsageItem (splice_last_1000 (usage_list full_manager @
        [usage_record_of (numbered_record 1001) 5000])))\<rparr>) =
      map numbered_record [2..1000] @ [usage_record_of (numbered_record 1001) 5000]"
    by (simp only: usage_list_update usage_list_full_manager drop_one_of_full)
  then show ?thesis
    using old gone by (simp only: storeUsageData_fallback [OF a b] sum.case simp_thms)
qed

text \<open>
  Claim C8, amended. With the database, the record is stored under its id and the
  records under every other id are as before. Without it, storing succeeds when the
  document under \<^verbatim>\<open>usage_data\<close> is a list or is missing: the new list is the end of
  the old list followed by the record, and while the old list has fewer than 1000
  records it is the whole old list, in its order, followed by the record.
\<close>

theorem storeUsageData_keeps_other_records:
  "(db sm = Some store \<longrightarrow>
      (\<exists>store'. storeUsageData sm now d =
                  Inr (sm\<lparr>db := Some store'\<rparr>)
         \<and> usageData store' (record_id d now) = Some (usage_record_of d now)
         \<and> (\<forall>i. i \<noteq> record_id d now \<longrightarrow> usageData store' i = usageData store i)
         \<and> secureData store' = secureData store \<and> cache store' = cache store))
   \<and> (db sm = None \<and> usage_data_is_list sm \<longrightarrow>
      (\<exists>sm'. storeUsageData sm now d = Inr sm'
         \<and> suffix (usage_list sm') (usage_list sm @ [usage_record_of d now])
         \<and> (length (usage_list sm) < 1000 \<longrightarrow>
              usage_list sm' = usage_list sm @ [usage_record_of d now])))"
proof (intro conjI impI)
  assume s: "db sm = Some store"
  let ?store' = "store\<lparr>usageData := (usageData store)(record_id d now \<mapsto> usage_record_of d now)\<rparr>"
  have "storeUsageData sm now d = Inr (sm\<lparr>db := Some ?store'\<rparr>)"
    using s by (simp add: storeUsageData_def Let_def)
  moreover have "usageData ?store' (record_id d now) = Some (usage_record_of d now)" by simp
  moreover have "\<forall>i. i \<noteq> record_id d now \<longrightarrow> usageData ?store' i = usageData store i" by simp
  moreover have "secureData ?store' = secureData store \<and> cache ?store' = cache store" by simp
  ultimately show "\<exists>store'. storeUsageData sm now d = Inr (sm\<lparr>db := Some store'\<rparr>)
         \<and> usageData store' (record_id d now) = Some (usage_record_of d now)
         \<and> (\<forall>i. i \<noteq> record_id d now \<longrightarrow> usageData store' i = usageData store i)
         \<and> secureData store' = secureData store \<and> cache store' = cache store"
    by blast
next
  assume f: "db sm = None \<and> usage_data_is_list sm"
  let ?new = "usage_list sm @ [usage_record_of d now]"
  let ?sm' = "sm\<lparr>localStorage := (localStorage sm)(''usage_data'' \<mapsto>
                 UsageItem (splice_last_1000 ?new))\<rparr>"
  have res: "storeUsageData sm now d = Inr ?sm'"
    using f by (simp add: storeUsageData_fallback)
  have list: "usage_list ?sm' = splice_last_1000 ?new"
    by (simp add: usage_list_def)
  have "suffix (usage_list ?sm') ?new"
    by (simp only: list suffix_splice_last_1000)
  moreover have "length (usage_list sm) < 1000 \<longrightarrow> usage_list ?sm' = ?new"
    unfolding list by (simp add: splice_last_1000_def)
  ultimately show "\<exists>sm'. storeUsageData sm now d = Inr sm'
         \<and> suffix (usage_list sm') (usage_list sm @ [usage_record_of d now])
         \<and> (length (usage_list sm) < 1000 \<longrightarrow>
              usage_list sm' = usage_list sm @ [usage_record_of d now])"
    using res by blast
qed

theorem storeUsageData_keeps_other_records_witness:
  "db db_manager = Some small_store
   \<and> (\<exists>store'. storeUsageData db_manager 5000 (numbered_record 2) =
                  Inr (db_manager\<lparr>db := Some store'\<rparr>)
         \<and> usageData store' 2 = Some (usage_record_of (numbered_record 2) 5000)
         \<and> usageData store' 1 = Some (numbered_record 1))"
proof -
  have a: "db db_manager = Some small_store" by (simp add: db_manager_def)
  have id2: "record_id (numbered_record 2) 5000 = 2"
    by (simp add: record_id_def numbered_record_def)
  from storeUsageData_keeps_other_records [of db_manager small_store 5000 "numbered_record 2"] a
  obtain store' where
    "storeUsageData db_manager 5000 (numbered_record 2) = Inr (db_manager\<lparr>db := Some store'\<rparr>)"
    and "usageData store' (record_id (numbered_record 2) 5000) =
           Some (usage_record_of (numbered_record 2) 5000)"
    and "\<forall>i. i \<noteq> record_id (numbered_record 2) 5000 \<longrightarrow> usageData store' i = usageData small_store i"
    by blast
  then show ?thesis using a by (auto simp: id2 small_store_def)
qed

section \<open>Properties of the cache\<close>

lemma cache_record_of_removeCacheData: "cache_record_of (removeCacheData sm k) k = None"
  by (simp add: cache_record_of_def removeCacheData_def split: option.splits)

lemma cache_record_of_setCacheData:
  "cache_record_of (setCacheData sm t0 k d ttl) k =
     Some \<lparr>cr_key = k, cr_data = d,
           cr_expires = t0 + (case ttl of Some t \<Rightarrow> t | None \<Rightarrow> 3600000), cr_timestamp = t0\<rparr>"
  by (simp add: cache_record_of_def setCacheData_def Let_def split: option.splits)

lemma getCacheData_expired:
  "cache_record_of sm k = Some r \<Longrightarrow> now > cr_expires r \<Longrightarrow>
     getCacheData sm now k = (None, removeCacheData sm k)"
  by (simp add: getCacheData_def)

lemma getCacheData_fresh:
  "cache_record_of sm k = Some r \<Longrightarrow> now \<le> cr_expires r \<Longrightarrow>
     getCacheData sm now k = (Some (cr_data r), sm)"
  by (simp add: getCacheData_def)

lemma cache_entry_absent_removeCacheData: "cache_entry_absent (removeCacheData sm k) k"
  by (simp add: cache_entry_absent_def removeCacheData_def split: option.splits)

text \<open>
  Claim C4. After \<^verbatim>\<open>setCacheData\<close> at the time \<open>t0\<close> with a TTL, the entry expires at
  \<open>t0 + ttl\<close>. A read at a time after that answers null and removes the entry from the
  object store (or from \<^verbatim>\<open>localStorage\<close>); a read at or before that time answers the
  stored value and changes nothing. The same holds for every state in which the cache
  holds a record under the key.
\<close>

theorem getCacheData_respects_expiry:
  "(let sm1 = setCacheData sm t0 k d (Some ttl) in
      (now > t0 + ttl \<longrightarrow>
         fst (getCacheData sm1 now k) = None
         \<and> cache_entry_absent (snd (getCacheData sm1 now k)) k
         \<and> cache_record_of (snd (getCacheData sm1 now k)) k = None)
      \<and> (now \<le> t0 + ttl \<longrightarrow> getCacheData sm1 now k = (Some d, sm1)))
   \<and> (\<forall>r. cache_record_of sm k = Some r \<longrightarrow>
         (now > cr_expires r \<longrightarrow>
            fst (getCacheData sm now k) = None
            \<and> cache_entry_absent (snd (getCacheData sm now k)) k)
         \<and> (now \<le> cr_expires r \<longrightarrow> getCacheData sm now k = (Some (cr_data r), sm)))"
proof -
  let ?sm1 = "setCacheData sm t0 k d (Some ttl)"
  let ?r = "\<lparr>cr_key = k, cr_data = d, cr_expires = t0 + ttl, cr_timestamp = t0\<rparr>"
  have r: "cache_record_of ?sm1 k = Some ?r"
    by (simp add: cache_record_of_setCacheData)
  have late: "now > t0 + ttl \<longrightarrow> getCacheData ?sm1 now k = (None, removeCacheData ?sm1 k)"
    using getCacheData_expired [OF r, of now] by simp
  have early: "now \<le> t0 + ttl \<longrightarrow> getCacheData ?sm1 now k = (Some d, ?sm1)"
    using getCacheData_fresh [OF r, of now] by simp
  have first: "(now > t0 + ttl \<longrightarrow>
         fst (getCacheData ?sm1 now k) = None
         \<and> cache_entry_absent (snd (getCacheData ?sm1 now k)) k
         \<and> cache_record_of (snd (getCacheData ?sm1 now k)) k = None)
      \<and> (now \<le> t0 + ttl \<longrightarrow> getCacheData ?sm1 now k = (Some d, ?sm1))"
    using late early
    by (simp add: cache_entry_absent_removeCacheData cache_record_of_removeCacheData)
  have second: "\<forall>r. cache_record_of sm k = Some r \<longrightarrow>
         (now > cr_expires r \<longrightarrow>
            fst (getCacheData sm now k) = None
            \<and> cache_entry_absent (snd (getCacheData sm now k)) k)
         \<and> (now \<le> cr_expires r \<longrightarrow> getCacheData sm now k = (Some (cr_data r), sm))"
    by (simp add: getCacheData_expired getCacheData_fresh cache_entry_absent_removeCacheData)
  from first second show ?thesis by (simp add: Let_def)
qed

theorem getCacheData_respects_expiry_witness:
  "getCacheData (setCacheData (empty_manager :: (nat, string, nat) storage_manager) 1000
      ''usage_summary'' 7 (Some 100)) 1100 ''usage_summary'' =
     (Some 7, setCacheData empty_manager 1000 ''usage_summary'' 7 (Some 100))
   \<and> fst (getCacheData (setCacheData (empty_manager :: (nat, string, nat) storage_manager) 1000
      ''usage_summary'' 7 (Some 100)) 1150 ''usage_summary'') = None
   \<and> cache_entry_absent
       (snd (getCacheData (setCacheData (empty_manager :: (nat, string, nat) storage_manager)
          1000 ''usage_summary'' 7 (Some 100)) 1150 ''usage_summary'')) ''usage_summary''"
  using getCacheData_respects_expiry
      [of "empty_manager :: (nat, string, nat) storage_manager" 1000 "''usage_summary''" 7 100 1100]
    getCacheData_respects_expiry
      [of "empty_manager :: (nat, string, nat) storage_manager" 1000 "''usage_summary''" 7 100 1150]
  by (simp add: Let_def)

section \<open>Properties of the login\<close>







end
